theory Spec2Isabelle
  imports Complex_Main "HOL-Library.AList"
begin

section \<open>Values decoded from a JSON message\<close>

text \<open>
  A message is decoded with \<^verbatim>\<open>json.loads\<close>; every field a handler reads with
  \<^verbatim>\<open>data.get\<close> is one of the values below. Numbers with a fraction are not
  modelled: a JSON number is an integer here.
\<close>

datatype json =
    JNull
  | JBool bool
  | JInt int
  | JStr string
  | JArr "json list"
  | JObj "(string \<times> json) list"

text \<open>Python truthiness, as tested by \<^verbatim>\<open>if not x\<close>.\<close>

fun truthy :: "json \<Rightarrow> bool" where
  "truthy JNull = False"
| "truthy (JBool b) = b"
| "truthy (JInt n) = (n \<noteq> 0)"
| "truthy (JStr s) = (s \<noteq> [])"
| "truthy (JArr xs) = (xs \<noteq> [])"
| "truthy (JObj kvs) = (kvs \<noteq> [])"

text \<open>The decoded request: \<^verbatim>\<open>data.get(k)\<close> and \<^verbatim>\<open>data.get(k, d)\<close>.\<close>

type_synonym request = "string \<rightharpoonup> json"

definition dget :: "request \<Rightarrow> string \<Rightarrow> json" where
  "dget data k = (case data k of None \<Rightarrow> JNull | Some v \<Rightarrow> v)"

definition dget_default :: "request \<Rightarrow> string \<Rightarrow> json \<Rightarrow> json" where
  "dget_default data k d = (case data k of None \<Rightarrow> d | Some v \<Rightarrow> v)"

text \<open>
  Exceptions the handlers can meet. Each of them is an instance of
  \<^verbatim>\<open>Exception\<close>, so \<^verbatim>\<open>except Exception\<close> catches it.
\<close>

datatype exn =
    TypeError
  | AttributeError
  | ZeroDivisionError
  | DecodeError string
  | OSError string

section \<open>Paths\<close>

definition starts_with :: "'a list \<Rightarrow> 'a list \<Rightarrow> bool" where
  "starts_with p s = (take (length p) s = p)"

definition ends_with :: "'a list \<Rightarrow> 'a list \<Rightarrow> bool" where
  "ends_with p s = (length p \<le> length s \<and> drop (length s - length p) s = p)"

text \<open>
  \<^verbatim>\<open>os.path.join(a, b)\<close> on a POSIX host (\<^verbatim>\<open>posixpath.join\<close> with one
  component): an absolute \<^verbatim>\<open>b\<close> replaces \<^verbatim>\<open>a\<close>.
\<close>

definition path_join :: "string \<Rightarrow> string \<Rightarrow> string" where
  "path_join a b =
     (if starts_with ''/'' b then b
      else if a = [] \<or> ends_with ''/'' a then a @ b
      else a @ ''/'' @ b)"

text \<open>\<^verbatim>\<open>s.split(c)\<close> for a one-character separator.\<close>

fun split_sep :: "char \<Rightarrow> string \<Rightarrow> string list" where
  "split_sep c [] = [[]]"
| "split_sep c (x # xs) =
     (if x = c then [] # split_sep c xs
      else (case split_sep c xs of
              [] \<Rightarrow> [[x]]
            | w # ws \<Rightarrow> (x # w) # ws))"

text \<open>
  Where a path leads: its components are walked from left to right, an empty one and
  \<^verbatim>\<open>.\<close> stay, \<^verbatim>\<open>..\<close> goes up one level (at the top of a relative path it is
  kept, at the root it stays), as \<^verbatim>\<open>os.path.normpath\<close> does. The walk is kept
  with the deepest component last.
\<close>

definition walk_step :: "bool \<Rightarrow> string list \<Rightarrow> string \<Rightarrow> string list" where
  "walk_step absolute st c =
     (if c = [] \<or> c = ''.'' then st
      else if c = ''..'' then
        (if st \<noteq> [] \<and> last st \<noteq> ''..'' then butlast st
         else if absolute then st
         else st @ [c])
      else st @ [c])"

definition walk :: "string \<Rightarrow> string list" where
  "walk p = foldl (walk_step (starts_with ''/'' p)) [] (split_sep CHR ''/'' p)"

text \<open>
  A path is inside a root when both are of the same kind (absolute or relative) and
  the walk of the path begins with the walk of the root.
\<close>

definition inside_root :: "string \<Rightarrow> string \<Rightarrow> bool" where
  "inside_root base p =
     (starts_with ''/'' p = starts_with ''/'' base \<and> starts_with (walk base) (walk p))"

text \<open>\<^verbatim>\<open>str(n)\<close> for a natural number.\<close>

definition digit_char :: "nat \<Rightarrow> char" where
  "digit_char d = ''0123456789'' ! (d mod 10)"

fun str_nat :: "nat \<Rightarrow> string" where
  "str_nat n = (if n < 10 then [digit_char n] else str_nat (n div 10) @ [digit_char (n mod 10)])"

declare str_nat.simps [simp del]


section \<open>The conversion runner\<close>

text \<open>The function \<^verbatim>\<open>convert_video\<close> of \<^verbatim>\<open>video2mp4/core.py\<close>.\<close>

text \<open>
  A progress update handed to the callback: the dictionaries with
  \<^verbatim>\<open>status\<close> \<^verbatim>\<open>error\<close> (message), \<^verbatim>\<open>progress\<close>
  (progress, time, duration) and \<^verbatim>\<open>completed\<close> (output).
  Python floats are taken as exact rationals: rounding is not modelled.
\<close>

datatype update =
    UError string
  | UProgress int rat rat
  | UCompleted string

text \<open>
  What a call of the caller's callback does: it returns, it raises an instance of
  \<^verbatim>\<open>Exception\<close>, or it raises another \<^verbatim>\<open>BaseException\<close>
  (\<^verbatim>\<open>KeyboardInterrupt\<close>, \<^verbatim>\<open>SystemExit\<close>). The string is
  \<^verbatim>\<open>str(e)\<close>.
\<close>

datatype outcome = Returned | RaisedException string | RaisedBaseException string

type_synonym callback = "update \<Rightarrow> outcome"

definition always_returns :: callback where
  "always_returns u = Returned"

definition always_raises :: callback where
  "always_raises u = RaisedException ''boom''"

text \<open>
  A run of the runner: the updates handed to the caller's callback so far, and either
  a value or the \<^verbatim>\<open>BaseException\<close> that leaves the function.
\<close>

type_synonym 'a run = "update list \<times> (string + 'a)"

definition ret :: "'a \<Rightarrow> 'a run" where
  "ret x = ([], Inr x)"

definition bnd :: "'a run \<Rightarrow> ('a \<Rightarrow> 'b run) \<Rightarrow> 'b run" where
  "bnd m f =
     (case snd m of
        Inl e \<Rightarrow> (fst m, Inl e)
      | Inr x \<Rightarrow> (fst m @ fst (f x), snd (f x)))"

text \<open>
  \<^verbatim>\<open>call_callback\<close>: nothing happens without a callback; otherwise the
  callback is called inside \<^verbatim>\<open>try ... except Exception\<close>.
\<close>

definition call_callback :: "callback option \<Rightarrow> update \<Rightarrow> unit run" where
  "call_callback original_callback u =
     (case original_callback of
        None \<Rightarrow> ([], Inr ())
      | Some cb \<Rightarrow>
          (case cb u of
             Returned \<Rightarrow> ([u], Inr ())
           | RaisedException e \<Rightarrow> ([u], Inr ())
           | RaisedBaseException e \<Rightarrow> ([u], Inl e)))"

text \<open>\<^verbatim>\<open>int(x)\<close> on a float: truncation towards zero.\<close>

definition py_trunc :: "rat \<Rightarrow> int" where
  "py_trunc x = (if x < 0 then \<lceil>x\<rceil> else \<lfloor>x\<rfloor>)"

text \<open>Lines 172 to 176: seconds from the time marker, and the percentage.\<close>

definition time_sec_of :: "int \<Rightarrow> rat" where
  "time_sec_of time_ms = of_int time_ms / 1000000"

definition conv_progress :: "rat \<Rightarrow> int \<Rightarrow> int" where
  "conv_progress duration time_ms =
     (if duration > 0 then min 100 (py_trunc ((time_sec_of time_ms / duration) * 100))
      else 0)"

text \<open>
  \<^verbatim>\<open>s.strip()\<close> and \<^verbatim>\<open>int(s)\<close> for ASCII text: blanks around (space, tab,
  line feed, vertical tab, form feed, carriage return), an optional sign, then decimal
  digits, with single underscores allowed between digits.
\<close>

definition is_space :: "char \<Rightarrow> bool" where
  "is_space c = (c \<in> set [CHR '' '', CHR 0x09, CHR 0x0A, CHR 0x0B, CHR 0x0C, CHR 0x0D])"

definition strip :: "string \<Rightarrow> string" where
  "strip s = rev (dropWhile is_space (rev (dropWhile is_space s)))"

definition digit_val :: "char \<Rightarrow> nat option" where
  "digit_val c = map_of (zip ''0123456789'' [0, 1, 2, 3, 4, 5, 6, 7, 8, 9]) c"

fun py_digits :: "nat \<Rightarrow> string \<Rightarrow> nat option" where
  "py_digits acc [] = Some acc"
| "py_digits acc [c] = map_option (\<lambda>d. 10 * acc + d) (digit_val c)"
| "py_digits acc (c # d # cs) =
     (case digit_val c of
        None \<Rightarrow> None
      | Some v \<Rightarrow>
          if d = CHR ''_'' then (if cs = [] then None else
            (case digit_val (hd cs) of None \<Rightarrow> None | Some w \<Rightarrow> py_digits (10 * acc + v) cs))
          else py_digits (10 * acc + v) (d # cs))"

definition py_int :: "string \<Rightarrow> int option" where
  "py_int s =
     (case strip s of
        [] \<Rightarrow> None
      | c # cs \<Rightarrow>
          if c = CHR ''-'' then (if cs = [] then None else map_option (\<lambda>n. - int n) (py_digits 0 cs))
          else if c = CHR ''+'' then (if cs = [] then None else map_option int (py_digits 0 cs))
          else map_option int (py_digits 0 (c # cs)))"

text \<open>\<^verbatim>\<open>os.path.dirname\<close> on a POSIX host.\<close>

definition rstrip_sep :: "string \<Rightarrow> string" where
  "rstrip_sep s = rev (dropWhile (\<lambda>c. c = CHR ''/'') (rev s))"

definition dirname :: "string \<Rightarrow> string" where
  "dirname p =
     (let head = rev (dropWhile (\<lambda>c. c \<noteq> CHR ''/'') (rev p))
      in if head \<noteq> [] \<and> rstrip_sep head \<noteq> [] then rstrip_sep head else head)"

text \<open>
  What the runner observes of its host: whether the FFmpeg probe succeeds, the file
  tests, the failure of \<^verbatim>\<open>os.makedirs\<close> if any, the working directory, the
  probed duration (0 when the probe fails), and the external process: either
  \<^verbatim>\<open>Popen\<close> raises, or the process gives its progress lines, its diagnostic text and
  its exit code. The failures are given by their \<^verbatim>\<open>str(e)\<close>. The command line is
  not modelled: it only reaches the external process.
\<close>

record conv_env =
  ffmpeg_available :: bool
  path_exists :: "string \<Rightarrow> bool"
  path_isfile :: "string \<Rightarrow> bool"
  makedirs_error :: "string \<Rightarrow> string option"
  getcwd :: string
  video_duration :: rat
  process :: "string + (string list \<times> string \<times> int)"

text \<open>The loop over the progress lines (lines 167 to 186).\<close>

fun read_progress :: "callback option \<Rightarrow> rat \<Rightarrow> string list \<Rightarrow> unit run" where
  "read_progress cb duration [] = ret ()"
| "read_progress cb duration (l # ls) =
     (let line = strip l in
      if starts_with ''out_time_ms='' line then
        (case split_sep CHR ''='' line of
           _ # v # _ \<Rightarrow>
             (case py_int v of
                None \<Rightarrow> read_progress cb duration ls
              | Some time_ms \<Rightarrow>
                  bnd (call_callback cb
                         (UProgress (conv_progress duration time_ms) (time_sec_of time_ms) duration))
                      (\<lambda>_. read_progress cb duration ls))
         | _ \<Rightarrow> read_progress cb duration ls)
      else read_progress cb duration ls)"

definition fail_with :: "callback option \<Rightarrow> string \<Rightarrow> bool run" where
  "fail_with cb msg = bnd (call_callback cb (UError msg)) (\<lambda>_. ret False)"

definition convert_video :: "conv_env \<Rightarrow> string \<Rightarrow> string \<Rightarrow> callback option \<Rightarrow> bool run" where
  "convert_video env input_file output_file cb =
     (if input_file = [] then fail_with cb ''Input file path is required''
      else if output_file = [] then fail_with cb ''Output file path is required''
      else if \<not> ffmpeg_available env then
        fail_with cb ''FFmpeg not found. Please install FFmpeg and add it to system PATH''
      else if \<not> path_exists env input_file then
        fail_with cb (''Input file not found: '' @ input_file)
      else if \<not> path_isfile env input_file then
        fail_with cb (''Input path is not a file: '' @ input_file)
      else
        (let output_dir = dirname output_file in
         case (if output_dir \<noteq> [] \<and> \<not> path_exists env output_dir
               then makedirs_error env output_dir else None) of
           Some e \<Rightarrow> fail_with cb (''Failed to create output directory: '' @ e)
         | None \<Rightarrow>
             (let output_file' =
                    (if output_dir = [] then path_join (getcwd env) output_file else output_file);
                  duration = video_duration env
              in case process env of
                   Inl e \<Rightarrow> fail_with cb e
                 | Inr (lines, stderr, returncode) \<Rightarrow>
                     bnd (read_progress cb duration lines)
                       (\<lambda>_. if returncode = 0
                            then bnd (call_callback cb (UCompleted output_file')) (\<lambda>_. ret True)
                            else fail_with cb stderr))))"

section \<open>The WebSocket server\<close>

text \<open>
  The class \<^verbatim>\<open>WebSocketServer\<close> of \<^verbatim>\<open>video2mp4/websocket_server.py\<close>.
  A connection is known by \<^verbatim>\<open>id(websocket)\<close>. A Python dictionary is an
  association list in insertion order: \<^verbatim>\<open>len\<close> is its length,
  \<^verbatim>\<open>d[k] = v\<close> is \<^const>\<open>AList.update\<close>, \<^verbatim>\<open>d.pop(k)\<close> and
  \<^verbatim>\<open>del d[k]\<close> are \<^const>\<open>AList.delete\<close>.
\<close>

type_synonym ws = nat

text \<open>
  An open file object: the path it was opened on and its write position. A write goes
  to the file at once (the buffer of the file object is not modelled), at the position
  of the file object, which no other file object shares.
\<close>

record file_obj =
  fh_path :: string
  fh_pos :: nat

definition write_at :: "string \<Rightarrow> nat \<Rightarrow> string \<Rightarrow> string" where
  "write_at content pos chunk_data =
     take pos (content @ replicate (pos - length content) (CHR 0x00))
       @ chunk_data @ drop (pos + length chunk_data) content"

text \<open>The per-upload dictionary built at line 182.\<close>

record upload_state =
  file_name :: string
  file_path :: string
  file_size :: json
  uploaded_size :: nat
  file_handle :: "file_obj option"

text \<open>
  A conversion started by \<^verbatim>\<open>asyncio.create_task\<close>: the connection and task
  identifier its callback closes over, the updates \<^verbatim>\<open>convert_video\<close> has still to
  hand to the callback from the executor thread, and whether \<^verbatim>\<open>cancel()\<close> was
  called on the task. The conversion is taken as started when its request has been
  handled, and every send on a connection succeeds.
\<close>

record job =
  j_ws :: ws
  j_task_id :: string
  j_pending :: "update list"
  j_cancel_called :: bool

text \<open>
  The server object: the task and upload dictionaries, the started conversions (the
  values of \<^verbatim>\<open>tasks\<close> are indices into them) and the files of the host.
\<close>

record server =
  tasks :: "(string \<times> nat) list"
  uploads :: "(string \<times> upload_state) list"
  jobs :: "job list"
  files :: "string \<rightharpoonup> string"

definition upload_dir :: string where
  "upload_dir = ''uploads''"

definition init_server :: server where
  "init_server = \<lparr>tasks = [], uploads = [], jobs = [], files = Map.empty\<rparr>"

text \<open>The message of each \<^verbatim>\<open>error\<close> response, by the place that sends it.\<close>

datatype errmsg =
    MissingInputOrOutput
  | TaskNotFound json
  | MissingFileName
  | InitFailed exn
  | MissingUploadIdOrChunk
  | UploadNotFound json
  | NotProperlyInitialized
  | ChunkFailed exn
  | MissingUploadId
  | EmptyOrMissingFile
  | UnknownAction json
  | InvalidJSON
  | Uncaught exn

datatype response =
    Error errmsg
  | FfmpegCheck bool
  | TaskStarted string
  | TaskCancelled string
  | UploadInit string
  | UploadProgress string int nat json
  | UploadComplete string string string
  | Progress string update

text \<open>
  A handler gives the responses it sends, each with the connection it is sent on, and
  the server afterwards; or it raises before it has changed anything.
\<close>

type_synonym result = "exn + ((ws \<times> response) list \<times> server)"

definition fresh_id :: "ws \<Rightarrow> nat \<Rightarrow> string" where
  "fresh_id websocket n = str_nat websocket @ ''_'' @ str_nat n"

text \<open>
  \<^verbatim>\<open>run_conversion\<close>: the updates the server's callback receives. The callback
  only sends, so it returns. A call with options that are no mapping, or that name a
  positional parameter again, raises before \<^verbatim>\<open>convert_video\<close> starts. Paths that
  are no strings are outside the model of \<^verbatim>\<open>convert_video\<close>: no update is
  modelled for them.
\<close>

definition run_conversion :: "conv_env \<Rightarrow> json \<Rightarrow> json \<Rightarrow> json \<Rightarrow> update list" where
  "run_conversion env input_file output_file options =
     (case options of
        JObj kvs \<Rightarrow>
          (if ''input_file'' \<in> fst ` set kvs \<or> ''output_file'' \<in> fst ` set kvs
              \<or> ''progress_callback'' \<in> fst ` set kvs then []
           else
             (case input_file of
                JStr i \<Rightarrow>
                  (case output_file of
                     JStr o' \<Rightarrow> fst (convert_video env i o' (Some always_returns))
                   | _ \<Rightarrow> [])
              | _ \<Rightarrow> []))
      | _ \<Rightarrow> [])"

definition handle_check_ffmpeg :: "conv_env \<Rightarrow> ws \<Rightarrow> server \<Rightarrow> result" where
  "handle_check_ffmpeg env websocket s = Inr ([(websocket, FfmpegCheck (ffmpeg_available env))], s)"

definition handle_convert_request :: "conv_env \<Rightarrow> ws \<Rightarrow> request \<Rightarrow> server \<Rightarrow> result" where
  "handle_convert_request env websocket data s =
     (let input_file = dget data ''input_file'';
          output_file = dget data ''output_file'';
          options = dget_default data ''options'' (JObj [])
      in if \<not> (truthy input_file \<and> truthy output_file) then
           Inr ([(websocket, Error MissingInputOrOutput)], s)
         else
           (let task_id = fresh_id websocket (length (tasks s));
                task = \<lparr>j_ws = websocket, j_task_id = task_id,
                        j_pending = run_conversion env input_file output_file options,
                        j_cancel_called = False\<rparr>
            in Inr ([(websocket, TaskStarted task_id)],
                    s\<lparr>jobs := jobs s @ [task],
                      tasks := AList.update task_id (length (jobs s)) (tasks s)\<rparr>)))"

text \<open>
  \<^verbatim>\<open>task.cancel()\<close> reaches the coroutine that awaits the executor; the function
  already running in the executor thread is not interrupted, so the pending updates
  of the conversion stay.
\<close>

definition cancel_task :: "nat \<Rightarrow> job list \<Rightarrow> job list" where
  "cancel_task j js = (if j < length js then js[j := (js ! j)\<lparr>j_cancel_called := True\<rparr>] else js)"

definition handle_cancel_request :: "ws \<Rightarrow> request \<Rightarrow> server \<Rightarrow> result" where
  "handle_cancel_request websocket data s =
     (let task_id = dget data ''task_id''
      in case task_id of
           JArr _ \<Rightarrow> Inl TypeError
         | JObj _ \<Rightarrow> Inl TypeError
         | JStr t \<Rightarrow>
             (case map_of (tasks s) t of
                Some task \<Rightarrow>
                  Inr ([(websocket, TaskCancelled t)],
                       s\<lparr>tasks := AList.delete t (tasks s), jobs := cancel_task task (jobs s)\<rparr>)
              | None \<Rightarrow> Inr ([(websocket, Error (TaskNotFound task_id))], s))
         | _ \<Rightarrow> Inr ([(websocket, Error (TaskNotFound task_id))], s))"

text \<open>
  \<^verbatim>\<open>handle_upload\<close>. The argument \<open>os_error\<close> is what the host does at lines 193
  to 195: \<open>None\<close> when \<^verbatim>\<open>os.makedirs\<close> and \<^verbatim>\<open>open\<close> succeed, otherwise the
  exception one of them raises. Opening in mode \<^verbatim>\<open>wb\<close> creates the file or empties it.
\<close>

definition handle_upload :: "exn option \<Rightarrow> ws \<Rightarrow> request \<Rightarrow> server \<Rightarrow> result" where
  "handle_upload os_error websocket data s =
     (let fname = dget data ''file_name'';
          fsize = dget_default data ''file_size'' (JInt 0)
      in if \<not> truthy fname then Inr ([(websocket, Error MissingFileName)], s)
         else
           (case fname of
              JStr name \<Rightarrow>
                (let upload_id = fresh_id websocket (length (uploads s));
                     path = path_join upload_dir name;
                     st = \<lparr>file_name = name, file_path = path, file_size = fsize,
                           uploaded_size = 0, file_handle = None\<rparr>;
                     s1 = s\<lparr>uploads := AList.update upload_id st (uploads s)\<rparr>
                 in case os_error of
                      Some e \<Rightarrow> Inr ([(websocket, Error (InitFailed e))], s1)
                    | None \<Rightarrow>
                        Inr ([(websocket, UploadInit upload_id)],
                             s1\<lparr>files := (files s1)(path \<mapsto> []),
                                uploads := AList.update upload_id
                                  (st\<lparr>file_handle := Some \<lparr>fh_path = path, fh_pos = 0\<rparr>\<rparr>)
                                  (uploads s1)\<rparr>))
            | _ \<Rightarrow> Inl TypeError))"

text \<open>
  Lines 252 and 253: \<^verbatim>\<open>min(100, int((uploaded_size / file_size) * 100))\<close>. The key
  \<^verbatim>\<open>file_size\<close> is always in the dictionary (line 185), so the default 1 of the
  lookup at line 252 never applies. A Boolean divides as 1 or 0; a value that is no
  number raises \<^verbatim>\<open>TypeError\<close>.
\<close>

definition upload_progress :: "nat \<Rightarrow> json \<Rightarrow> exn + int" where
  "upload_progress uploaded fsize =
     (case (case fsize of JInt n \<Rightarrow> Some n | JBool b \<Rightarrow> Some (if b then 1 else 0) | _ \<Rightarrow> None) of
        None \<Rightarrow> Inl TypeError
      | Some n \<Rightarrow>
          if n = 0 then Inl ZeroDivisionError
          else Inr (min 100 (py_trunc ((rat_of_nat uploaded / rat_of_int n) * 100))))"

text \<open>
  \<^verbatim>\<open>base64.b64decode(chunk)\<close>: the decoder of strings is a parameter; a chunk that
  is no string raises \<^verbatim>\<open>TypeError\<close>.
\<close>

definition b64decode :: "(string \<Rightarrow> exn + string) \<Rightarrow> json \<Rightarrow> exn + string" where
  "b64decode dec chunk = (case chunk of JStr c \<Rightarrow> dec c | _ \<Rightarrow> Inl TypeError)"

definition handle_upload_chunk ::
  "(string \<Rightarrow> exn + string) \<Rightarrow> ws \<Rightarrow> request \<Rightarrow> server \<Rightarrow> result" where
  "handle_upload_chunk dec websocket data s =
     (let upload_id = dget data ''upload_id'';
          chunk = dget data ''chunk''
      in if \<not> (truthy upload_id \<and> truthy chunk) then
           Inr ([(websocket, Error MissingUploadIdOrChunk)], s)
         else
           (case upload_id of
              JArr _ \<Rightarrow> Inl TypeError
            | JObj _ \<Rightarrow> Inl TypeError
            | JStr u \<Rightarrow>
                (case map_of (uploads s) u of
                   None \<Rightarrow> Inr ([(websocket, Error (UploadNotFound upload_id))], s)
                 | Some st \<Rightarrow>
                     (case file_handle st of
                        None \<Rightarrow> Inr ([(websocket, Error NotProperlyInitialized)], s)
                      | Some fh \<Rightarrow>
                          (case b64decode dec chunk of
                             Inl e \<Rightarrow> Inr ([(websocket, Error (ChunkFailed e))], s)
                           | Inr chunk_data \<Rightarrow>
                               (let content = (case files s (fh_path fh) of None \<Rightarrow> [] | Some c \<Rightarrow> c);
                                    fh' = fh\<lparr>fh_pos := fh_pos fh + length chunk_data\<rparr>;
                                    st' = st\<lparr>file_handle := Some fh',
                                             uploaded_size := uploaded_size st + length chunk_data\<rparr>;
                                    s' = s\<lparr>files := (files s)(fh_path fh \<mapsto>
                                                 write_at content (fh_pos fh) chunk_data),
                                           uploads := AList.update u st' (uploads s)\<rparr>
                                in case upload_progress (uploaded_size st') (file_size st') of
                                     Inl e \<Rightarrow> Inr ([(websocket, Error (ChunkFailed e))], s')
                                   | Inr progress \<Rightarrow>
                                       Inr ([(websocket,
                                              UploadProgress u progress (uploaded_size st')
                                                (file_size st'))], s')))))
            | _ \<Rightarrow> Inr ([(websocket, Error (UploadNotFound upload_id))], s)))"

text \<open>
  \<^verbatim>\<open>handle_upload_complete\<close>: the file object is closed, the file is tested, and
  the \<^verbatim>\<open>finally\<close> block deletes the entry. Closing and the file tests do not fail
  here.
\<close>

definition handle_upload_complete :: "ws \<Rightarrow> request \<Rightarrow> server \<Rightarrow> result" where
  "handle_upload_complete websocket data s =
     (let upload_id = dget data ''upload_id''
      in if \<not> truthy upload_id then Inr ([(websocket, Error MissingUploadId)], s)
         else
           (case upload_id of
              JArr _ \<Rightarrow> Inl TypeError
            | JObj _ \<Rightarrow> Inl TypeError
            | JStr u \<Rightarrow>
                (case map_of (uploads s) u of
                   None \<Rightarrow> Inr ([(websocket, Error (UploadNotFound upload_id))], s)
                 | Some st \<Rightarrow>
                     (let s1 = (case file_handle st of
                                  None \<Rightarrow> s
                                | Some fh \<Rightarrow>
                                    s\<lparr>uploads := AList.update u (st\<lparr>file_handle := None\<rparr>) (uploads s)\<rparr>);
                          verified = (case files s1 (file_path st) of
                                        None \<Rightarrow> False
                                      | Some content \<Rightarrow> length content > 0);
                          s2 = s1\<lparr>uploads := AList.delete u (uploads s1)\<rparr>
                      in if verified then
                           Inr ([(websocket, UploadComplete u (file_path st) (file_name st))], s2)
                         else Inr ([(websocket, Error EmptyOrMissingFile)], s2)))
            | _ \<Rightarrow> Inr ([(websocket, Error (UploadNotFound upload_id))], s)))"

text \<open>
  \<^verbatim>\<open>process_message\<close>. The text received is no JSON, or JSON that is no object
  (then \<^verbatim>\<open>data.get\<close> raises), or an object. What the host does during the message
  comes with it: the exception of \<^verbatim>\<open>os.makedirs\<close> or \<^verbatim>\<open>open\<close> if any, and
  what a conversion started by the message observes.
\<close>

datatype message = NotJSON | NotObject | Object request

record host =
  h_os_error :: "exn option"
  h_conv :: conv_env

definition process_message ::
  "(string \<Rightarrow> exn + string) \<Rightarrow> host \<Rightarrow> ws \<Rightarrow> message \<Rightarrow> server \<Rightarrow> (ws \<times> response) list \<times> server" where
  "process_message dec h websocket msg s =
     (case msg of
        NotJSON \<Rightarrow> ([(websocket, Error InvalidJSON)], s)
      | NotObject \<Rightarrow> ([(websocket, Error (Uncaught AttributeError))], s)
      | Object data \<Rightarrow>
          (let action = dget data ''action'';
               r = (if action = JStr ''convert'' then handle_convert_request (h_conv h) websocket data s
                    else if action = JStr ''check_ffmpeg'' then handle_check_ffmpeg (h_conv h) websocket s
                    else if action = JStr ''cancel'' then handle_cancel_request websocket data s
                    else if action = JStr ''upload'' then handle_upload (h_os_error h) websocket data s
                    else if action = JStr ''upload_chunk'' then handle_upload_chunk dec websocket data s
                    else if action = JStr ''upload_complete'' then handle_upload_complete websocket data s
                    else Inr ([(websocket, Error (UnknownAction action))], s))
           in case r of
                Inl e \<Rightarrow> ([(websocket, Error (Uncaught e))], s)
              | Inr out \<Rightarrow> out))"

text \<open>
  One step of the server: a message arrives on a connection, or the executor thread of
  a started conversion hands its next update to the callback, which sends it as a
  \<^verbatim>\<open>progress\<close> response tagged with the task identifier.
\<close>

datatype step = Recv host ws message | Deliver nat

definition deliver :: "nat \<Rightarrow> server \<Rightarrow> (ws \<times> response) list \<times> server" where
  "deliver j s =
     (if j < length (jobs s) then
        (case j_pending (jobs s ! j) of
           [] \<Rightarrow> ([], s)
         | u # us \<Rightarrow>
             ([(j_ws (jobs s ! j), Progress (j_task_id (jobs s ! j)) u)],
              s\<lparr>jobs := (jobs s)[j := (jobs s ! j)\<lparr>j_pending := us\<rparr>]\<rparr>))
      else ([], s))"

definition do_step ::
  "(string \<Rightarrow> exn + string) \<Rightarrow> step \<Rightarrow> server \<Rightarrow> (ws \<times> response) list \<times> server" where
  "do_step dec st s =
     (case st of
        Recv h websocket msg \<Rightarrow> process_message dec h websocket msg s
      | Deliver j \<Rightarrow> deliver j s)"

text \<open>A run of steps: everything sent, in order, and the server at the end.\<close>

fun run_steps ::
  "(string \<Rightarrow> exn + string) \<Rightarrow> step list \<Rightarrow> server \<Rightarrow> (ws \<times> response) list \<times> server" where
  "run_steps dec [] s = ([], s)"
| "run_steps dec (st # sts) s =
     (let r = do_step dec st s; r' = run_steps dec sts (snd r) in (fst r @ fst r', snd r'))"

section \<open>Notions used by the properties\<close>

text \<open>\<^verbatim>\<open>k in d\<close> for a key that can be hashed: only a string can be a key.\<close>

definition known :: "(string \<times> 'v) list \<Rightarrow> json \<Rightarrow> bool" where
  "known d k = (case k of JStr t \<Rightarrow> map_of d t \<noteq> None | _ \<Rightarrow> False)"

text \<open>The requests of an upload, as a client sends them.\<close>

definition upload_request :: "string \<Rightarrow> json \<Rightarrow> message" where
  "upload_request name fsize =
     Object [''action'' \<mapsto> JStr ''upload'', ''file_name'' \<mapsto> JStr name, ''file_size'' \<mapsto> fsize]"

definition chunk_request :: "string \<Rightarrow> json \<Rightarrow> string \<Rightarrow> message" where
  "chunk_request u offset c =
     Object [''action'' \<mapsto> JStr ''upload_chunk'', ''upload_id'' \<mapsto> JStr u,
             ''offset'' \<mapsto> offset, ''chunk'' \<mapsto> JStr c]"

definition complete_request :: "string \<Rightarrow> message" where
  "complete_request u = Object [''action'' \<mapsto> JStr ''upload_complete'', ''upload_id'' \<mapsto> JStr u]"

definition convert_request :: "string \<Rightarrow> string \<Rightarrow> message" where
  "convert_request i o' =
     Object [''action'' \<mapsto> JStr ''convert'', ''input_file'' \<mapsto> JStr i, ''output_file'' \<mapsto> JStr o']"

definition cancel_request :: "string \<Rightarrow> message" where
  "cancel_request t = Object [''action'' \<mapsto> JStr ''cancel'', ''task_id'' \<mapsto> JStr t]"

text \<open>
  A host for the examples: FFmpeg is installed, the input exists, the process prints
  one time marker and exits with code 0, and files open. The sample decoder knows the
  Base64 text of \<^verbatim>\<open>ABC\<close> and \<^verbatim>\<open>DEF\<close>, and of the empty text.
\<close>

definition sample_env :: conv_env where
  "sample_env =
     \<lparr>ffmpeg_available = True, path_exists = (\<lambda>p. True), path_isfile = (\<lambda>p. True),
      makedirs_error = (\<lambda>p. None), getcwd = ''/srv'', video_duration = 10,
      process = Inr ([''out_time_ms=2500000''], [], 0)\<rparr>"

definition negative_marker_env :: conv_env where
  "negative_marker_env =
     sample_env\<lparr>video_duration := 1, process := Inr ([''out_time_ms=-2000000''], [], 0)\<rparr>"

definition sample_host :: host where
  "sample_host = \<lparr>h_os_error = None, h_conv = sample_env\<rparr>"

definition failing_host :: host where
  "failing_host = \<lparr>h_os_error = Some (OSError ''Permission denied''), h_conv = sample_env\<rparr>"

definition sample_dec :: "string \<Rightarrow> exn + string" where
  "sample_dec c =
     (if c = [] then Inr []
      else if c = ''QUJD'' then Inr ''ABC''
      else if c = ''REVG'' then Inr ''DEF''
      else Inl (DecodeError ''Incorrect padding''))"


text \<open>
  The traffic between the start and the completion of one upload: chunk messages for
  its identifier (each with its connection and offset), and other steps. A step is
  another step when it is the delivery of a conversion update, or a message that is
  none of the three upload messages.
\<close>

definition other_step :: "step \<Rightarrow> bool" where
  "other_step st =
     (case st of
        Deliver j \<Rightarrow> True
      | Recv h w msg \<Rightarrow>
          (case msg of
             Object data \<Rightarrow>
               dget data ''action'' \<notin> {JStr ''upload'', JStr ''upload_chunk'', JStr ''upload_complete''}
           | _ \<Rightarrow> True))"

definition traffic_steps :: "host \<Rightarrow> string \<Rightarrow> ((ws \<times> json \<times> string) + step) list \<Rightarrow> step list" where
  "traffic_steps h u xs =
     map (\<lambda>x. case x of Inl (w, offset, c) \<Rightarrow> Recv h w (chunk_request u offset c) | Inr st \<Rightarrow> st) xs"

definition chunks_of :: "((ws \<times> json \<times> string) + step) list \<Rightarrow> string list" where
  "chunks_of xs = concat (map (\<lambda>x. case x of Inl (w, offset, c) \<Rightarrow> [c] | Inr st \<Rightarrow> []) xs)"

text \<open>The server after connection 7 has started one conversion.\<close>

definition one_task_server :: server where
  "one_task_server =
     snd (process_message sample_dec sample_host 7 (convert_request ''in.mov'' ''out.mp4'') init_server)"

section \<open>Evaluation\<close>

lemmas model_defs =
  run_steps.simps do_step_def process_message_def deliver_def
  handle_convert_request_def handle_cancel_request_def handle_upload_def handle_upload_chunk_def
  handle_upload_complete_def handle_check_ffmpeg_def dget_def dget_default_def fresh_id_def
  str_nat.simps digit_char_def path_join_def starts_with_def ends_with_def upload_dir_def
  init_server_def sample_host_def sample_env_def failing_host_def sample_dec_def
  negative_marker_env_def one_task_server_def always_returns_def always_raises_def
  upload_request_def chunk_request_def complete_request_def convert_request_def cancel_request_def
  traffic_steps_def chunks_of_def other_step_def known_def
  b64decode_def upload_progress_def py_trunc_def write_at_def cancel_task_def run_conversion_def
  convert_video_def call_callback_def bnd_def ret_def fail_with_def
  dirname_def rstrip_sep_def strip_def is_space_def py_int_def
  digit_val_def conv_progress_def time_sec_of_def Let_def
  inside_root_def walk_def walk_step_def

section \<open>The callback cannot stop a conversion\<close>

lemma call_callback_contained:
  assumes "\<And>u e. cb u \<noteq> RaisedBaseException e"
  shows "call_callback (Some cb) = call_callback (Some always_returns)"
proof
  fix u
  show "call_callback (Some cb) u = call_callback (Some always_returns) u"
    using assms by (cases "cb u") (auto simp: call_callback_def always_returns_def)
qed

lemma read_progress_cong_cb:
  assumes "call_callback cb = call_callback cb'"
  shows "read_progress cb d ls = read_progress cb' d ls"
  by (induction ls) (simp_all add: assms Let_def split: list.splits option.splits)

lemma fail_with_cong_cb:
  assumes "call_callback cb = call_callback cb'"
  shows "fail_with cb = fail_with cb'"
  by (simp add: fail_with_def assms fun_eq_iff)

lemma convert_video_cong_cb:
  assumes "call_callback cb = call_callback cb'"
  shows "convert_video env i o' cb = convert_video env i o' cb'"
  unfolding convert_video_def read_progress_cong_cb[OF assms] fail_with_cong_cb[OF assms] assms
  by (rule refl)

lemma call_returned: "call_callback (Some always_returns) u = ([u], Inr ())"
  by (simp add: call_callback_def always_returns_def)

lemma read_progress_returns:
  "snd (read_progress (Some always_returns) d ls) = Inr ()"
  by (induction ls)
    (simp_all add: call_returned bnd_def ret_def Let_def split: list.splits option.splits)

lemma fail_with_returns: "snd (fail_with (Some always_returns) m) = Inr False"
  by (simp add: fail_with_def call_returned bnd_def ret_def)

lemma convert_video_returns:
  "\<not> isl (snd (convert_video env i o' (Some always_returns)))"
  unfolding convert_video_def Let_def
  by (simp add: fail_with_returns read_progress_returns call_returned bnd_def ret_def
      split: option.splits sum.splits prod.splits)

text \<open>
  C10. When the callback raises nothing but instances of \<^verbatim>\<open>Exception\<close>,
  \<^verbatim>\<open>convert_video\<close> returns a Boolean (nothing leaves the function), and the whole
  run, the updates handed over and the Boolean, is the run with a callback that always
  returns.
\<close>

theorem callback_exception_contained:
  assumes "\<forall>u e. cb u \<noteq> RaisedBaseException e"
  shows "\<exists>b. snd (convert_video env i o' (Some cb)) = Inr b
     \<and> convert_video env i o' (Some cb) = convert_video env i o' (Some always_returns)"
proof -
  have "call_callback (Some cb) = call_callback (Some always_returns)"
    using assms by (intro call_callback_contained) blast
  then have "convert_video env i o' (Some cb) = convert_video env i o' (Some always_returns)"
    by (rule convert_video_cong_cb)
  with convert_video_returns[of env i o'] show ?thesis
    by (cases "snd (convert_video env i o' (Some always_returns))") simp_all
qed

theorem callback_exception_contained_witness:
  "(\<forall>u e. always_raises u \<noteq> RaisedBaseException e)
   \<and> convert_video sample_env ''in.mov'' ''out.mp4'' (Some always_raises)
     = ([UProgress 25 (5 / 2) 10, UCompleted ''/srv/out.mp4''], Inr True)
   \<and> convert_video sample_env ''in.mov'' ''out.mp4'' (Some always_returns)
     = ([UProgress 25 (5 / 2) 10, UCompleted ''/srv/out.mp4''], Inr True)"
  using callback_exception_contained [of always_raises sample_env "''in.mov''" "''out.mp4''"]
  by (simp add: model_defs)

section \<open>Percentages\<close>














section \<open>Unknown identifiers\<close>

lemma cancel_unknown:
  assumes "\<not> known (tasks s) (dget data ''task_id'')"
  shows "handle_cancel_request w data s = Inl TypeError
       \<or> handle_cancel_request w data s = Inr ([(w, Error (TaskNotFound (dget data ''task_id'')))], s)"
  using assms
  by (cases "dget data ''task_id''") (auto simp: handle_cancel_request_def known_def Let_def)

lemma chunk_unknown:
  assumes "\<not> known (uploads s) (dget data ''upload_id'')"
  shows "handle_upload_chunk dec w data s = Inl TypeError
       \<or> (\<exists>e. handle_upload_chunk dec w data s = Inr ([(w, Error e)], s))"
  using assms
  by (cases "dget data ''upload_id''") (auto simp: handle_upload_chunk_def known_def Let_def)

lemma complete_unknown:
  assumes "\<not> known (uploads s) (dget data ''upload_id'')"
  shows "handle_upload_complete w data s = Inl TypeError
       \<or> (\<exists>e. handle_upload_complete w data s = Inr ([(w, Error e)], s))"
  using assms
  by (cases "dget data ''upload_id''") (auto simp: handle_upload_complete_def known_def Let_def)

text \<open>
  C7. A \<^verbatim>\<open>cancel\<close> whose task identifier is not a key of the task dictionary, and an
  \<^verbatim>\<open>upload_chunk\<close> or \<^verbatim>\<open>upload_complete\<close> whose upload identifier is not a key
  of the upload dictionary, is answered with one \<^verbatim>\<open>error\<close> response on the same
  connection, and the server (tasks, uploads, conversions and files) is unchanged.
\<close>

theorem unknown_id_is_error_without_change:
  "(dget data ''action'' = JStr ''cancel'' \<and> \<not> known (tasks s) (dget data ''task_id'')
      \<longrightarrow> (\<exists>e. process_message dec h w (Object data) s = ([(w, Error e)], s)))
   \<and> (dget data ''action'' = JStr ''upload_chunk'' \<and> \<not> known (uploads s) (dget data ''upload_id'')
      \<longrightarrow> (\<exists>e. process_message dec h w (Object data) s = ([(w, Error e)], s)))
   \<and> (dget data ''action'' = JStr ''upload_complete'' \<and> \<not> known (uploads s) (dget data ''upload_id'')
      \<longrightarrow> (\<exists>e. process_message dec h w (Object data) s = ([(w, Error e)], s)))"
proof (intro conjI impI)
  assume "dget data ''action'' = JStr ''cancel'' \<and> \<not> known (tasks s) (dget data ''task_id'')"
  then show "\<exists>e. process_message dec h w (Object data) s = ([(w, Error e)], s)"
    using cancel_unknown[of s data w] by (auto simp: process_message_def Let_def)
next
  assume "dget data ''action'' = JStr ''upload_chunk'' \<and> \<not> known (uploads s) (dget data ''upload_id'')"
  then show "\<exists>e. process_message dec h w (Object data) s = ([(w, Error e)], s)"
    using chunk_unknown[of s data dec w] by (auto simp: process_message_def Let_def)
next
  assume "dget data ''action'' = JStr ''upload_complete'' \<and> \<not> known (uploads s) (dget data ''upload_id'')"
  then show "\<exists>e. process_message dec h w (Object data) s = ([(w, Error e)], s)"
    using complete_unknown[of s data w] by (auto simp: process_message_def Let_def)
qed

theorem unknown_id_is_error_without_change_witness:
  "\<not> known (tasks one_task_server) (JStr ''7_1'')
   \<and> process_message sample_dec sample_host 7 (cancel_request ''7_1'') one_task_server
       = ([(7, Error (TaskNotFound (JStr ''7_1'')))], one_task_server)
   \<and> \<not> known (uploads one_task_server) (JStr ''7_0'')
   \<and> process_message sample_dec sample_host 7 (chunk_request ''7_0'' (JInt 0) ''QUJD'') one_task_server
       = ([(7, Error (UploadNotFound (JStr ''7_0'')))], one_task_server)
   \<and> process_message sample_dec sample_host 7 (complete_request ''7_0'') one_task_server
       = ([(7, Error (UploadNotFound (JStr ''7_0'')))], one_task_server)"
  using unknown_id_is_error_without_change
      [of "[''action'' \<mapsto> JStr ''cancel'', ''task_id'' \<mapsto> JStr ''7_1'']" one_task_server
          sample_dec sample_host 7]
    unknown_id_is_error_without_change
      [of "[''action'' \<mapsto> JStr ''upload_chunk'', ''upload_id'' \<mapsto> JStr ''7_0'',
            ''offset'' \<mapsto> JInt 0, ''chunk'' \<mapsto> JStr ''QUJD'']" one_task_server
          sample_dec sample_host 7]
    unknown_id_is_error_without_change
      [of "[''action'' \<mapsto> JStr ''upload_complete'', ''upload_id'' \<mapsto> JStr ''7_0'']"
          one_task_server sample_dec sample_host 7]
  by (simp add: model_defs)

section \<open>Who may cancel a task\<close>

text \<open>
  C8, as stated, fails: the task dictionary belongs to the server, not to a connection,
  and \<^verbatim>\<open>handle_cancel_request\<close> looks the identifier up without regard to the
  connection. Connection 8 cancels the task that connection 7 started.
\<close>

theorem cancel_from_other_connection_counterexample:
  "fst (run_steps sample_dec
          [Recv sample_host 7 (convert_request ''in.mov'' ''out.mp4''),
           Recv sample_host 8 (cancel_request ''7_0'')] init_server)
     = [(7, TaskStarted ''7_0''), (8, TaskCancelled ''7_0'')]
   \<and> tasks (snd (run_steps sample_dec
          [Recv sample_host 7 (convert_request ''in.mov'' ''out.mp4''),
           Recv sample_host 8 (cancel_request ''7_0'')] init_server)) = []
   \<and> map j_cancel_called (jobs (snd (run_steps sample_dec
          [Recv sample_host 7 (convert_request ''in.mov'' ''out.mp4''),
           Recv sample_host 8 (cancel_request ''7_0'')] init_server))) = [True]"
  by (simp add: model_defs)

text \<open>
  C8, amended. A task is looked up by its identifier alone: a \<^verbatim>\<open>cancel\<close> that names
  a task of the dictionary removes it, calls \<^verbatim>\<open>cancel()\<close> on it and is answered with
  \<^verbatim>\<open>task_cancelled\<close>, on whatever connection \<open>w\<close> it arrives.
\<close>

theorem cancel_ignores_connection:
  assumes "dget data ''task_id'' = JStr t" and "map_of (tasks s) t = Some j"
  shows "handle_cancel_request w data s =
           Inr ([(w, TaskCancelled t)],
                s\<lparr>tasks := AList.delete t (tasks s), jobs := cancel_task j (jobs s)\<rparr>)"
  using assms by (simp add: handle_cancel_request_def Let_def)

theorem cancel_ignores_connection_witness:
  "dget [''task_id'' \<mapsto> JStr ''7_0''] ''task_id'' = JStr ''7_0''
   \<and> map_of (tasks one_task_server) ''7_0'' = Some 0
   \<and> handle_cancel_request 8 [''task_id'' \<mapsto> JStr ''7_0''] one_task_server =
        Inr ([(8, TaskCancelled ''7_0'')],
          one_task_server\<lparr>tasks := [], jobs := cancel_task 0 (jobs one_task_server)\<rparr>)"
  using cancel_ignores_connection
      [of "[''task_id'' \<mapsto> JStr ''7_0'']" "''7_0''" one_task_server 0 8]
  by (simp add: model_defs)

section \<open>A failing upload request\<close>

text \<open>
  C5, as stated, fails: the entry is put into the upload dictionary (line 182) before
  the directory is made and the file is opened, and the \<^verbatim>\<open>except\<close> branch does not
  take it out again.
\<close>

theorem failed_open_keeps_session_counterexample:
  "uploads init_server = []
   \<and> fst (process_message sample_dec failing_host 7 (upload_request ''a.bin'' (JInt 3)) init_server)
       = [(7, Error (InitFailed (OSError ''Permission denied'')))]
   \<and> map fst (uploads (snd (process_message sample_dec failing_host 7
                              (upload_request ''a.bin'' (JInt 3)) init_server))) = [''7_0'']"
  by (simp add: model_defs)

text \<open>
  C5, amended. A request without a file name, or with an empty one, is answered with an
  error and changes nothing. When making the directory or opening the file fails, an
  error is reported, no file is touched and no file object is kept; the entry of line
  182 stays in the upload dictionary with \<^verbatim>\<open>file_handle\<close> \<^verbatim>\<open>None\<close>.
\<close>

theorem failing_upload:
  "(\<not> truthy (dget data ''file_name'') \<longrightarrow>
      handle_upload e w data s = Inr ([(w, Error MissingFileName)], s))
   \<and> (dget data ''file_name'' = JStr name \<and> name \<noteq> [] \<longrightarrow>
      handle_upload (Some x) w data s =
        Inr ([(w, Error (InitFailed x))],
             s\<lparr>uploads := AList.update (fresh_id w (length (uploads s)))
                  \<lparr>file_name = name, file_path = path_join upload_dir name,
                   file_size = dget_default data ''file_size'' (JInt 0),
                   uploaded_size = 0, file_handle = None\<rparr> (uploads s)\<rparr>))"
  by (simp add: handle_upload_def Let_def)

theorem failing_upload_witness:
  "\<not> truthy (dget [''file_name'' \<mapsto> JStr []] ''file_name'')
   \<and> handle_upload None 7 [''file_name'' \<mapsto> JStr []] init_server
       = Inr ([(7, Error MissingFileName)], init_server)
   \<and> dget [''file_name'' \<mapsto> JStr ''a.bin''] ''file_name'' = JStr ''a.bin''
   \<and> handle_upload (Some (OSError ''Permission denied'')) 7 [''file_name'' \<mapsto> JStr ''a.bin'']
        init_server
       = Inr ([(7, Error (InitFailed (OSError ''Permission denied'')))],
              init_server\<lparr>uploads :=
                [(''7_0'', \<lparr>file_name = ''a.bin'', file_path = ''uploads/a.bin'',
                   file_size = JInt 0, uploaded_size = 0, file_handle = None\<rparr>)]\<rparr>)"
  using failing_upload[of "[''file_name'' \<mapsto> JStr []]" None 7 init_server "[]"
      "OSError ''Permission denied''"]
    failing_upload[of "[''file_name'' \<mapsto> JStr ''a.bin'']" None 7 init_server "''a.bin''"
      "OSError ''Permission denied''"]
  by (simp add: model_defs)

section \<open>Where an upload is written\<close>

lemma split_sep_nonempty: "split_sep c s \<noteq> []"
  by (induction s) (auto split: list.splits)

lemma split_sep_append: "split_sep c (a @ c # b) = split_sep c a @ split_sep c b"
proof (induction a)
  case Nil
  then show ?case by simp
next
  case (Cons x a)
  then show ?case
    using split_sep_nonempty[of c a] by (cases "split_sep c a") auto
qed

lemma walk_grows:
  "''..'' \<notin> set cs \<Longrightarrow> \<exists>ys. foldl (walk_step a) st cs = st @ ys"
proof (induction cs arbitrary: st)
  case Nil
  then show ?case by simp
next
  case (Cons c cs)
  then have "''..'' \<notin> set cs" and "c \<noteq> ''..''" by auto
  from Cons.IH[OF this(1), of "walk_step a st c"]
  obtain ys where ys: "foldl (walk_step a) (walk_step a st c) cs = walk_step a st c @ ys"
    by blast
  have "walk_step a st c = st \<or> walk_step a st c = st @ [c]"
    using \<open>c \<noteq> ''..''\<close> by (simp add: walk_step_def)
  with ys show ?case by auto
qed

lemma relative_join:
  "\<not> starts_with ''/'' name \<Longrightarrow> path_join upload_dir name = ''uploads'' @ CHR ''/'' # name"
  by (simp add: path_join_def upload_dir_def ends_with_def)

lemma walk_upload_dir: "walk upload_dir = [''uploads'']"
  by (simp add: walk_def upload_dir_def walk_step_def starts_with_def)

lemma joined_inside:
  assumes "\<not> starts_with ''/'' name" and "''..'' \<notin> set (split_sep CHR ''/'' name)"
  shows "inside_root upload_dir (path_join upload_dir name)"
proof -
  have rel: "\<not> starts_with ''/'' (''uploads'' @ CHR ''/'' # name)"
    by (simp add: starts_with_def)
  have "walk (''uploads'' @ CHR ''/'' # name)
        = foldl (walk_step False) [''uploads''] (split_sep CHR ''/'' name)"
    unfolding walk_def split_sep_append using rel
    by (simp add: walk_step_def)
  moreover obtain ys where
    "foldl (walk_step False) [''uploads''] (split_sep CHR ''/'' name) = [''uploads''] @ ys"
    using walk_grows[OF assms(2)] by blast
  ultimately have "starts_with (walk upload_dir) (walk (''uploads'' @ CHR ''/'' # name))"
    by (simp add: walk_upload_dir starts_with_def)
  moreover have "starts_with ''/'' upload_dir = False"
    by (simp add: upload_dir_def starts_with_def)
  ultimately show ?thesis
    using rel unfolding inside_root_def relative_join[OF assms(1)] by simp
qed

text \<open>
  C1, as stated, fails: \<^verbatim>\<open>handle_upload\<close> joins the client's file name to the upload
  directory and opens the result, with no check. A name with \<^verbatim>\<open>..\<close> leads out of
  the directory, and an absolute name replaces the directory altogether.
\<close>

theorem path_traversal_counterexample:
  "fst (process_message sample_dec sample_host 7 (upload_request ''../evil.sh'' (JInt 4)) init_server)
     = [(7, UploadInit ''7_0'')]
   \<and> files (snd (process_message sample_dec sample_host 7
                   (upload_request ''../evil.sh'' (JInt 4)) init_server)) ''uploads/../evil.sh''
     = Some []
   \<and> \<not> inside_root upload_dir ''uploads/../evil.sh''
   \<and> files (snd (process_message sample_dec sample_host 7
                   (upload_request ''/etc/cron.d/x'' (JInt 4)) init_server)) ''/etc/cron.d/x''
     = Some []
   \<and> \<not> inside_root upload_dir ''/etc/cron.d/x''"
  by (simp add: model_defs)

text \<open>
  C1, amended. For a file name that is a non-empty string, the destination of the
  session is \<^verbatim>\<open>os.path.join(upload_dir, file_name)\<close>, and no other file is touched.
  That path is inside the upload directory when the name is relative and none of its
  components is \<^verbatim>\<open>..\<close>; other names are neither rejected nor changed.
\<close>

theorem upload_path_is_joined:
  assumes "dget data ''file_name'' = JStr name" and "name \<noteq> []"
  shows "\<exists>out s' st. handle_upload e w data s = Inr (out, s')
           \<and> map_of (uploads s') (fresh_id w (length (uploads s))) = Some st
           \<and> file_path st = path_join upload_dir name
           \<and> (\<forall>p. p \<noteq> path_join upload_dir name \<longrightarrow> files s' p = files s p)
           \<and> (\<not> starts_with ''/'' name \<and> ''..'' \<notin> set (split_sep CHR ''/'' name)
                \<longrightarrow> inside_root upload_dir (file_path st))"
  using assms joined_inside[of name]
  by (cases e) (auto simp: handle_upload_def Let_def AList.update_conv')

theorem upload_path_is_joined_witness:
  "dget [''file_name'' \<mapsto> JStr ''clips/a.mov''] ''file_name'' = JStr ''clips/a.mov''
   \<and> \<not> starts_with ''/'' ''clips/a.mov'' \<and> ''..'' \<notin> set (split_sep CHR ''/'' ''clips/a.mov'')
   \<and> handle_upload None 7 [''file_name'' \<mapsto> JStr ''clips/a.mov''] init_server
       = Inr ([(7, UploadInit ''7_0'')],
              \<lparr>tasks = [],
               uploads = [(''7_0'', \<lparr>file_name = ''clips/a.mov'', file_path = ''uploads/clips/a.mov'',
                  file_size = JInt 0, uploaded_size = 0,
                  file_handle = Some \<lparr>fh_path = ''uploads/clips/a.mov'', fh_pos = 0\<rparr>\<rparr>)],
               jobs = [], files = [''uploads/clips/a.mov'' \<mapsto> []]\<rparr>)
   \<and> inside_root upload_dir ''uploads/clips/a.mov''"
  using upload_path_is_joined
      [of "[''file_name'' \<mapsto> JStr ''clips/a.mov'']" "''clips/a.mov''" None 7 init_server]
  by (simp add: model_defs)

section \<open>The upload round trip\<close>













section \<open>Where the code falls short of its own intent\<close>

text \<open>
  C2. \<^verbatim>\<open>handle_cancel_request\<close> removes the task and calls \<^verbatim>\<open>cancel()\<close>, but
  \<^verbatim>\<open>convert_video\<close> runs on in its executor thread and no part of it looks at the
  cancellation. After \<^verbatim>\<open>task_cancelled\<close> the connection still receives the
  remaining updates of the task, \<^verbatim>\<open>completed\<close> among them.
\<close>

theorem completed_after_cancel:
  "fst (run_steps sample_dec
          [Recv sample_host 7 (convert_request ''in.mov'' ''out.mp4''),
           Recv sample_host 7 (cancel_request ''7_0''),
           Deliver 0, Deliver 0] init_server)
     = [(7, TaskStarted ''7_0''), (7, TaskCancelled ''7_0''),
        (7, Progress ''7_0'' (UProgress 25 (5 / 2) 10)),
        (7, Progress ''7_0'' (UCompleted ''/srv/out.mp4''))]"
  by (simp add: model_defs)

text \<open>
  C4. With a declared size of 0 (the default of \<^verbatim>\<open>handle_upload\<close> when
  \<^verbatim>\<open>file_size\<close> is absent) the chunk is written, then line 253 divides by zero: the
  answer is an \<^verbatim>\<open>error\<close> response, not a progress report. The default 1 of
  \<^verbatim>\<open>upload_state.get("file_size", 1)\<close> never applies, since the key is always there.
\<close>

theorem zero_size_chunk_fails:
  "fst (run_steps sample_dec
          [Recv sample_host 7
             (Object [''action'' \<mapsto> JStr ''upload'', ''file_name'' \<mapsto> JStr ''a.bin'']),
           Recv sample_host 7 (chunk_request ''7_0'' (JInt 0) ''QUJD'')] init_server)
     = [(7, UploadInit ''7_0''), (7, Error (ChunkFailed ZeroDivisionError))]
   \<and> files (snd (run_steps sample_dec
          [Recv sample_host 7
             (Object [''action'' \<mapsto> JStr ''upload'', ''file_name'' \<mapsto> JStr ''a.bin'']),
           Recv sample_host 7 (chunk_request ''7_0'' (JInt 0) ''QUJD'')] init_server))
        ''uploads/a.bin'' = Some ''ABC''"
  by (simp add: model_defs)

text \<open>
  C9. The identifier is built from the number of entries of the task dictionary, and
  \<^verbatim>\<open>cancel\<close> removes an entry: the next task of the same connection gets the
  identifier of the cancelled one.
\<close>

theorem task_id_reused:
  "fst (run_steps sample_dec
          [Recv sample_host 7 (convert_request ''a.mov'' ''a.mp4''),
           Recv sample_host 7 (cancel_request ''7_0''),
           Recv sample_host 7 (convert_request ''b.mov'' ''b.mp4'')] init_server)
     = [(7, TaskStarted ''7_0''), (7, TaskCancelled ''7_0''), (7, TaskStarted ''7_0'')]"
  by (simp add: model_defs)

end
